theory Spec2Isabelle
  imports Complex_Main
begin

section \<open>Data model (src/app.py, lines 34-67)\<close>

text \<open>
  The four SQLAlchemy models become records and a table becomes the list of its rows in
  storage order. A \<^verbatim>\<open>db.Integer\<close> column is an \<^typ>\<open>int\<close>, a \<^verbatim>\<open>db.String\<close> column a
  \<^typ>\<open>string\<close>, a nullable text column a \<^typ>\<open>string option\<close>. A \<^verbatim>\<open>db.Float\<close> column
  is idealised as a \<^typ>\<open>real\<close>: rounding and the non-finite values are not modelled.
  \<^verbatim>\<open>date_booked\<close> is a time stamp, a natural number. A text is a list of the 8-bit
  characters of HOL. Field names carry the initial of their model, since the models share
  the names \<^verbatim>\<open>id\<close> and \<^verbatim>\<open>name\<close>.

  The storage engine is SQLite, which the file configures unless \<^verbatim>\<open>DATABASE_URL\<close> is set
  (line 15): a column does not enforce its declared length, an integer is stored when it
  is a signed 64-bit integer, and a NaN is stored as \<^verbatim>\<open>NULL\<close>.
\<close>

record user =
  u_id :: int
  u_username :: string
  u_password :: string
  u_role :: string

record destination =
  d_id :: int
  d_name :: string
  d_location :: string
  d_description :: "string option"
  d_best_season :: "string option"
  d_is_active :: bool

record package =
  p_id :: int
  p_name :: string
  p_duration :: "string option"
  p_price :: real
  p_max_capacity :: int
  p_image_file :: string
  p_dest_id :: int

record booking =
  b_id :: int
  b_user_id :: int
  b_package_id :: int
  b_travelers :: int
  b_total_price :: real
  b_status :: string
  b_date_booked :: nat

record db =
  users :: "user list"
  destinations :: "destination list"
  packages :: "package list"
  bookings :: "booking list"

text \<open>
  The constraints the models declare: primary keys are unique in their table
  (\<^verbatim>\<open>primary_key=True\<close>), and the foreign keys of lines 57 and 63 reference a stored row.
  SQLite keeps the first always and the second only when the enforcement of foreign keys
  is switched on, which the file does not do.
\<close>

definition primary_keys :: "db \<Rightarrow> bool" where
  "primary_keys s \<longleftrightarrow>
     distinct (map u_id (users s)) \<and> distinct (map d_id (destinations s)) \<and>
     distinct (map p_id (packages s)) \<and> distinct (map b_id (bookings s))"

definition foreign_keys :: "db \<Rightarrow> bool" where
  "foreign_keys s \<longleftrightarrow>
     list_all (\<lambda>p. p_dest_id p \<in> set (map d_id (destinations s))) (packages s) \<and>
     list_all (\<lambda>b. b_package_id b \<in> set (map p_id (packages s))) (bookings s)"

text \<open>The key an autoincrementing integer primary key gives a new row.\<close>

definition fresh_id :: "int list \<Rightarrow> int" where
  "fresh_id ks = fold max ks 0 + 1"

text \<open>
  The integers SQLite takes as a parameter of a statement; for any other, the binding
  raises \<^verbatim>\<open>OverflowError\<close>.
\<close>

definition sqlite_integer :: "int \<Rightarrow> bool" where
  "sqlite_integer n \<longleftrightarrow> - (2 ^ 63) \<le> n \<and> n < 2 ^ 63"

section \<open>Requests, responses, errors and the libraries\<close>

datatype http_method = GET | POST

record request =
  request_method :: http_method
  form :: "string \<rightharpoonup> string"
  files :: "string \<rightharpoonup> string"

text \<open>
  \<^verbatim>\<open>files\<close> maps the name of an upload field to the file name the client sent.
  A handler ends in a response or in an error. \<open>NotFound\<close> is the 404 of
  \<^verbatim>\<open>get_or_404\<close>; the other errors are Python exceptions no handler catches.
  An error commits nothing: the database stays the one before the request.
  \<open>NonFinite\<close> is no error of the program: it ends the account of a request by which the
  program stores an infinite float, which no database of this model holds.
\<close>

datatype error =
    NotFound | ValueError | TypeError | AttributeError | IntegrityError | OverflowError
  | NonFinite

datatype view =
    Index_html "package list"
  | Login_html
  | Register_html
  | Dashboard_html real nat string "booking list"
  | Add_destination_html
  | Add_package_html "destination list"
  | Customer_dash_html "booking list"

datatype response = Redirect string | Render view

record outcome =
  response :: response
  flashed :: "(string \<times> string) list"
  logged_in :: "user option"
  store :: db

text \<open>What \<^verbatim>\<open>float\<close> gives for a string it reads: a number, an infinity or a NaN.\<close>

datatype pyfloat = Number real | Infinity | NaN

text \<open>
  What the application takes from outside its file. Python's \<^verbatim>\<open>int\<close> and \<^verbatim>\<open>float\<close> on a
  string (\<open>None\<close> where they raise \<^verbatim>\<open>ValueError\<close>), the password hashing and the file
  name sanitising of werkzeug are parameters: nothing is assumed of them but what a
  theorem states. So are the clock and whether the engine enforces the declared foreign
  keys.
\<close>

record env =
  py_int :: "string \<Rightarrow> int option"
  py_float :: "string \<Rightarrow> pyfloat option"
  generate_password_hash :: "string \<Rightarrow> string"
  check_password_hash :: "string \<Rightarrow> string \<Rightarrow> bool"
  secure_filename :: "string \<Rightarrow> string"
  enforce_foreign_keys :: bool
  utcnow :: nat

text \<open>
  \<^verbatim>\<open>@login_required\<close>: an anonymous request is sent to the login view, with the message
  of flask-login. The \<^verbatim>\<open>next\<close> parameter of the redirect is not represented.
\<close>

definition login_required ::
  "(user \<Rightarrow> error + outcome) \<Rightarrow> user option \<Rightarrow> db \<Rightarrow> error + outcome" where
  "login_required handler current_user s =
     (case current_user of
        None \<Rightarrow>
          Inr \<lparr>response = Redirect ''login'',
               flashed = [(''Please log in to access this page.'', ''message'')],
               logged_in = None, store = s\<rparr>
      | Some u \<Rightarrow> handler u)"

definition reply :: "user option \<Rightarrow> db \<Rightarrow> response \<Rightarrow> error + outcome" where
  "reply current_user s r = Inr \<lparr>response = r, flashed = [], logged_in = current_user, store = s\<rparr>"

text \<open>
  The conversions applied to a form field: \<^verbatim>\<open>request.form.get\<close> gives \<^verbatim>\<open>None\<close> for an
  absent field, on which both raise \<^verbatim>\<open>TypeError\<close>; a string that does not read raises
  \<^verbatim>\<open>ValueError\<close>.
\<close>

definition int_field :: "env \<Rightarrow> string option \<Rightarrow> error + int" where
  "int_field E v =
     (case v of
        None \<Rightarrow> Inl TypeError
      | Some t \<Rightarrow> (case py_int E t of None \<Rightarrow> Inl ValueError | Some n \<Rightarrow> Inr n))"

definition float_field :: "env \<Rightarrow> string option \<Rightarrow> error + pyfloat" where
  "float_field E v =
     (case v of
        None \<Rightarrow> Inl TypeError
      | Some t \<Rightarrow> (case py_float E t of None \<Rightarrow> Inl ValueError | Some x \<Rightarrow> Inr x))"

section \<open>Routes\<close>

text \<open>\<^verbatim>\<open>index\<close> (lines 77-80): the packages joined with their destination, the active ones.\<close>

definition active_packages :: "db \<Rightarrow> package list" where
  "active_packages s =
     [p. p \<leftarrow> packages s, d \<leftarrow> destinations s, p_dest_id p = d_id d, d_is_active d = True]"

definition index :: "user option \<Rightarrow> db \<Rightarrow> error + outcome" where
  "index current_user s = reply current_user s (Render (Index_html (active_packages s)))"

text \<open>
  \<^verbatim>\<open>confirm_booking\<close> (lines 161-167). \<^verbatim>\<open>Booking.query.get(id)\<close> is the row with that
  primary key or \<^verbatim>\<open>None\<close>; assigning \<^verbatim>\<open>None.status\<close> raises \<^verbatim>\<open>AttributeError\<close>. The
  query binds the id, which raises \<^verbatim>\<open>OverflowError\<close> beyond 64 bits; no stored booking
  has such an id.
\<close>

definition confirm_booking :: "user option \<Rightarrow> int \<Rightarrow> db \<Rightarrow> error + outcome" where
  "confirm_booking current_user i s =
     login_required (\<lambda>u.
       case find (\<lambda>b. b_id b = i) (bookings s) of
         None \<Rightarrow> if sqlite_integer i then Inl AttributeError else Inl OverflowError
       | Some booking \<Rightarrow>
           reply current_user
             (s\<lparr>bookings := map (\<lambda>b. if b_id b = i then b\<lparr>b_status := ''Confirmed''\<rparr> else b) (bookings s)\<rparr>)
             (Redirect ''admin_dashboard'')) current_user s"

section \<open>Catalog routes\<close>

text \<open>
  \<^verbatim>\<open>allowed_file\<close> (lines 73-74): the text after the last dot, in lower case, is one of
  the allowed extensions. \<open>lower\<close> is \<^verbatim>\<open>str.lower\<close> on the ASCII letters.
\<close>

definition lower :: "string \<Rightarrow> string" where
  "lower s =
     map (\<lambda>c. case map_of (zip ''ABCDEFGHIJKLMNOPQRSTUVWXYZ'' ''abcdefghijklmnopqrstuvwxyz'') c of
                 None \<Rightarrow> c
               | Some l \<Rightarrow> l) s"

definition ALLOWED_EXTENSIONS :: "string list" where
  "ALLOWED_EXTENSIONS = [''png'', ''jpg'', ''jpeg'']"

definition allowed_file :: "string \<Rightarrow> bool" where
  "allowed_file filename \<longleftrightarrow>
     CHR ''.'' \<in> set filename \<and>
     lower (rev (takeWhile (\<lambda>c. c \<noteq> CHR ''.'') (rev filename))) \<in> set ALLOWED_EXTENSIONS"

text \<open>
  \<^verbatim>\<open>add_destination\<close> (lines 117-125). The handler is guarded by \<^verbatim>\<open>@login_required\<close>
  alone. \<^verbatim>\<open>name\<close> and \<^verbatim>\<open>location\<close> are \<^verbatim>\<open>nullable=False\<close>: the commit of a row without
  one raises \<^verbatim>\<open>IntegrityError\<close>. \<^verbatim>\<open>is_active\<close> takes its default.
\<close>

definition add_destination :: "user option \<Rightarrow> request \<Rightarrow> db \<Rightarrow> error + outcome" where
  "add_destination current_user req s =
     login_required (\<lambda>u.
       if request_method req = POST then
         (case (form req ''name'', form req ''location'') of
            (Some name, Some location) \<Rightarrow>
              reply current_user
                (s\<lparr>destinations := destinations s @
                    [\<lparr>d_id = fresh_id (map d_id (destinations s)), d_name = name,
                      d_location = location, d_description = form req ''description'',
                      d_best_season = form req ''best_season'', d_is_active = True\<rparr>]\<rparr>)
                (Redirect ''admin_dashboard'')
          | _ \<Rightarrow> Inl IntegrityError)
       else reply current_user s (Render Add_destination_html)) current_user s"

text \<open>
  \<^verbatim>\<open>add_package\<close> (lines 127-142), guarded by \<^verbatim>\<open>@login_required\<close> alone. The arguments
  of \<^verbatim>\<open>Package(...)\<close> are evaluated in the order written: \<^verbatim>\<open>float\<close> of the price,
  \<^verbatim>\<open>int\<close> of the capacity, \<^verbatim>\<open>int\<close> of the destination id. At the commit, the binding of
  a capacity or a destination id beyond 64 bits raises \<^verbatim>\<open>OverflowError\<close>; then the
  insertion raises \<^verbatim>\<open>IntegrityError\<close> for a missing name, for a price that is a NaN (which
  is stored as \<^verbatim>\<open>NULL\<close> in a column that is \<^verbatim>\<open>nullable=False\<close>) and, when the engine
  enforces foreign keys, for a destination id that no destination has. An infinite price
  is stored by the program; the model stops there. The write of the uploaded file to the
  upload folder is outside the database and not modelled: the file system is taken to
  accept it.
\<close>

definition image_filename :: "env \<Rightarrow> request \<Rightarrow> string" where
  "image_filename E req =
     (case files req ''image'' of
        None \<Rightarrow> ''default.jpg''
      | Some filename \<Rightarrow>
          if filename \<noteq> [] \<and> allowed_file filename then secure_filename E filename
          else ''default.jpg'')"

definition add_package :: "env \<Rightarrow> user option \<Rightarrow> request \<Rightarrow> db \<Rightarrow> error + outcome" where
  "add_package E current_user req s =
     login_required (\<lambda>u.
       if request_method req = POST then
         (case float_field E (form req ''price'') of
            Inl e \<Rightarrow> Inl e
          | Inr price \<Rightarrow>
              (case int_field E (form req ''capacity'') of
                 Inl e \<Rightarrow> Inl e
               | Inr capacity \<Rightarrow>
                   (case int_field E (form req ''dest_id'') of
                      Inl e \<Rightarrow> Inl e
                    | Inr dest \<Rightarrow>
                        if sqlite_integer capacity \<and> sqlite_integer dest then
                          (case form req ''name'' of
                             None \<Rightarrow> Inl IntegrityError
                           | Some name \<Rightarrow>
                               if enforce_foreign_keys E \<and> dest \<notin> set (map d_id (destinations s))
                               then Inl IntegrityError
                               else
                                 (case price of
                                    NaN \<Rightarrow> Inl IntegrityError
                                  | Infinity \<Rightarrow> Inl NonFinite
                                  | Number x \<Rightarrow>
                                      reply current_user
                                        (s\<lparr>packages := packages s @
                                            [\<lparr>p_id = fresh_id (map p_id (packages s)), p_name = name,
                                              p_duration = form req ''duration'', p_price = x,
                                              p_max_capacity = capacity,
                                              p_image_file = image_filename E req,
                                              p_dest_id = dest\<rparr>]\<rparr>)
                                        (Redirect ''admin_dashboard'')))
                        else Inl OverflowError)))
       else reply current_user s (Render (Add_package_html (destinations s)))) current_user s"

section \<open>Booking routes\<close>

text \<open>
  \<^verbatim>\<open>book_package\<close> (lines 144-153). The query of \<^verbatim>\<open>get_or_404\<close> binds the id, which
  raises \<^verbatim>\<open>OverflowError\<close> beyond 64 bits, and ends the request with 404 when no package
  has the id. \<^verbatim>\<open>request.form.get('travelers', 1)\<close> is the integer 1 for an absent field,
  and \<^verbatim>\<open>int\<close> leaves an integer as it is. A traveler count beyond 64 bits raises
  \<^verbatim>\<open>OverflowError\<close>, in the product when it is beyond the floats too and at the commit
  otherwise. The product is taken in the reals: the rounding of the float product, and
  its overflow to an infinity, are not modelled. The route is registered for POST only,
  so the method of the request is not looked at.
\<close>

definition travelers_of :: "env \<Rightarrow> request \<Rightarrow> error + int" where
  "travelers_of E req =
     (case form req ''travelers'' of None \<Rightarrow> Inr 1 | Some t \<Rightarrow> int_field E (Some t))"

definition book_package :: "env \<Rightarrow> user option \<Rightarrow> int \<Rightarrow> request \<Rightarrow> db \<Rightarrow> error + outcome" where
  "book_package E current_user pkg_id req s =
     login_required (\<lambda>u.
       if \<not> sqlite_integer pkg_id then Inl OverflowError
       else
         (case find (\<lambda>p. p_id p = pkg_id) (packages s) of
            None \<Rightarrow> Inl NotFound
          | Some pkg \<Rightarrow>
              (case travelers_of E req of
                 Inl e \<Rightarrow> Inl e
               | Inr num \<Rightarrow>
                   if \<not> sqlite_integer num then Inl OverflowError
                   else
                     Inr \<lparr>response = Redirect ''my_bookings'',
                          flashed = [(''Booking request submitted!'', ''success'')],
                          logged_in = current_user,
                          store = s\<lparr>bookings := bookings s @
                            [\<lparr>b_id = fresh_id (map b_id (bookings s)), b_user_id = u_id u,
                              b_package_id = pkg_id, b_travelers = num,
                              b_total_price = p_price pkg * real_of_int num,
                              b_status = ''Pending'', b_date_booked = utcnow E\<rparr>]\<rparr>\<rparr>))) current_user s"

definition my_bookings :: "user option \<Rightarrow> db \<Rightarrow> error + outcome" where
  "my_bookings current_user s =
     login_required (\<lambda>u.
       reply current_user s
         (Render (Customer_dash_html (filter (\<lambda>b. b_user_id b = u_id u) (bookings s))))) current_user s"

section \<open>Accounts\<close>

text \<open>
  \<^verbatim>\<open>register\<close> (lines 92-100). The hash of an absent password raises; the commit raises
  \<^verbatim>\<open>IntegrityError\<close> for an absent user name (\<^verbatim>\<open>nullable=False\<close>) and for one that is
  taken (\<^verbatim>\<open>unique=True\<close>). The role takes its default.
\<close>

definition register :: "env \<Rightarrow> user option \<Rightarrow> request \<Rightarrow> db \<Rightarrow> error + outcome" where
  "register E current_user req s =
     (if request_method req = POST then
        (case form req ''password'' of
           None \<Rightarrow> Inl AttributeError
         | Some password \<Rightarrow>
             (let hashed_pw = generate_password_hash E password in
              case form req ''username'' of
                None \<Rightarrow> Inl IntegrityError
              | Some username \<Rightarrow>
                  if username \<in> set (map u_username (users s)) then Inl IntegrityError
                  else
                    reply current_user
                      (s\<lparr>users := users s @
                          [\<lparr>u_id = fresh_id (map u_id (users s)), u_username = username,
                            u_password = hashed_pw, u_role = ''customer''\<rparr>]\<rparr>)
                      (Redirect ''login'')))
      else reply current_user s (Render Register_html))"



section \<open>The admin dashboard (lines 107-115)\<close>

text \<open>
  \<^verbatim>\<open>SUM\<close> over no row is \<^verbatim>\<open>NULL\<close>, which \<^verbatim>\<open>scalar()\<close> gives as \<^verbatim>\<open>None\<close>; Python's
  \<^verbatim>\<open>x or 0\<close> is 0 when \<^verbatim>\<open>x\<close> is \<^verbatim>\<open>None\<close> or zero.
\<close>

definition sql_sum :: "real list \<Rightarrow> real option" where
  "sql_sum xs = (if xs = [] then None else Some (sum_list xs))"

definition or_zero :: "real option \<Rightarrow> real" where
  "or_zero v = (case v of None \<Rightarrow> 0 | Some x \<Rightarrow> if x = 0 then 0 else x)"

definition revenue :: "db \<Rightarrow> real" where
  "revenue s =
     or_zero (sql_sum (map b_total_price (filter (\<lambda>b. b_status b = ''Confirmed'') (bookings s))))"

text \<open>
  The rows of \<^verbatim>\<open>Destination JOIN Package JOIN Booking\<close>, on the foreign keys; their
  groups by destination id, each with the name of the destination and the number of its
  rows; the groups by falling count; the first of them.
\<close>

definition joined :: "db \<Rightarrow> (destination \<times> package \<times> booking) list" where
  "joined s =
     [(d, p, b). d \<leftarrow> destinations s, p \<leftarrow> packages s, p_dest_id p = d_id d,
                 b \<leftarrow> bookings s, b_package_id b = p_id p]"

function group_by_id :: "(destination \<times> package \<times> booking) list \<Rightarrow> (string \<times> nat) list" where
  "group_by_id [] = []"
| "group_by_id (r # rs) =
     (d_name (fst r), Suc (length (filter (\<lambda>x. d_id (fst x) = d_id (fst r)) rs))) #
     group_by_id (filter (\<lambda>x. d_id (fst x) \<noteq> d_id (fst r)) rs)"
  by pat_completeness auto
termination
  by (relation "measure length") (auto simp: less_Suc_eq_le)

definition order_by_count_desc :: "(string \<times> nat) list \<Rightarrow> (string \<times> nat) list" where
  "order_by_count_desc gs = sort_key (\<lambda>g. - int (snd g)) gs"

definition first :: "'a list \<Rightarrow> 'a option" where
  "first xs = (case xs of [] \<Rightarrow> None | x # _ \<Rightarrow> Some x)"

definition popular :: "db \<Rightarrow> (string \<times> nat) option" where
  "popular s = first (order_by_count_desc (group_by_id (joined s)))"

definition popular_dest :: "db \<Rightarrow> string" where
  "popular_dest s = (case popular s of None \<Rightarrow> ''No Bookings'' | Some row \<Rightarrow> fst row)"

definition admin_dashboard :: "user option \<Rightarrow> db \<Rightarrow> error + outcome" where
  "admin_dashboard current_user s =
     login_required (\<lambda>u.
       if u_role u \<noteq> ''admin'' then reply current_user s (Redirect ''index'')
       else
         reply current_user s
           (Render (Dashboard_html (revenue s) (length (bookings s)) (popular_dest s)
              (rev (sort_key b_date_booked (bookings s)))))) current_user s"

section \<open>Notions of the specification\<close>

text \<open>The destination a package belongs to: the one its foreign key names.\<close>

definition parent :: "db \<Rightarrow> package \<Rightarrow> destination option" where
  "parent s p = find (\<lambda>d. d_id d = p_dest_id p) (destinations s)"

definition has_active_parent :: "db \<Rightarrow> package \<Rightarrow> bool" where
  "has_active_parent s p = (case parent s p of None \<Rightarrow> False | Some d \<Rightarrow> d_is_active d)"

text \<open>The bookings of a destination: those made for one of its packages.\<close>

definition booked_at :: "db \<Rightarrow> destination \<Rightarrow> booking \<Rightarrow> bool" where
  "booked_at s d b \<longleftrightarrow>
     list_ex (\<lambda>p. p_id p = b_package_id b \<and> p_dest_id p = d_id d) (packages s)"

definition booking_count :: "db \<Rightarrow> destination \<Rightarrow> nat" where
  "booking_count s d = length (filter (booked_at s d) (bookings s))"

text \<open>No destination has a booking.\<close>

definition nothing_booked :: "db \<Rightarrow> bool" where
  "nothing_booked s \<longleftrightarrow> list_all (\<lambda>d. booking_count s d = 0) (destinations s)"

definition confirmed_total :: "db \<Rightarrow> real" where
  "confirmed_total s =
     sum_list (map b_total_price (filter (\<lambda>b. b_status b = ''Confirmed'') (bookings s)))"

text \<open>
  A later change of the price of a package. The file has no route that does it; this
  stands for any later edit of the row.
\<close>

definition set_price :: "int \<Rightarrow> real \<Rightarrow> db \<Rightarrow> db" where
  "set_price i x s =
     s\<lparr>packages := map (\<lambda>p. if p_id p = i then p\<lparr>p_price := x\<rparr> else p) (packages s)\<rparr>"


section \<open>Example data\<close>

text \<open>
  The conversions of the example environment are tables: what \<^verbatim>\<open>int\<close> and \<^verbatim>\<open>float\<close>
  give on the texts the examples submit. Any other text counts as one they do not read,
  as \<^verbatim>\<open>cheap\<close> and \<^verbatim>\<open>four\<close> are.
\<close>

definition example_int :: "string \<Rightarrow> int option" where
  "example_int = map_of
     [(''0'', 0), (''1'', 1), (''2'', 2), (''4'', 4), (''5'', 5), (''99'', 99), (''-3'', - 3),
      (''9223372036854775808'', 9223372036854775808),
      (''-9223372036854775809'', - 9223372036854775809)]"

definition example_float :: "string \<Rightarrow> pyfloat option" where
  "example_float = map_of
     [(''1'', Number 1), (''10'', Number 10), (''-5'', Number (- 5)), (''99.5'', Number (199 / 2))]"

definition toy_env :: env where
  "toy_env =
     \<lparr>py_int = example_int,
      py_float = example_float,
      generate_password_hash = (\<lambda>p. ''toy$'' @ p),
      check_password_hash = (\<lambda>h p. h = ''toy$'' @ p),
      secure_filename = (\<lambda>f. f),
      enforce_foreign_keys = True,
      utcnow = 1000\<rparr>"

text \<open>The engine as the file configures it: foreign keys are not enforced.\<close>

definition sqlite_env :: env where
  "sqlite_env = toy_env\<lparr>enforce_foreign_keys := False\<rparr>"




definition admin :: user where
  "admin = \<lparr>u_id = 1, u_username = ''admin'', u_password = ''toy$admin123'', u_role = ''admin''\<rparr>"

definition alice :: user where
  "alice = \<lparr>u_id = 2, u_username = ''alice'', u_password = ''toy$pw1'', u_role = ''customer''\<rparr>"

definition goa :: destination where
  "goa = \<lparr>d_id = 1, d_name = ''Goa'', d_location = ''India'', d_description = None,
           d_best_season = Some ''Winter'', d_is_active = True\<rparr>"

definition manali :: destination where
  "manali = \<lparr>d_id = 2, d_name = ''Manali'', d_location = ''India'', d_description = None,
              d_best_season = None, d_is_active = False\<rparr>"

definition beach :: package where
  "beach = \<lparr>p_id = 1, p_name = ''Beach week'', p_duration = Some ''5 Days/4 Nights'',
             p_price = 100, p_max_capacity = 10, p_image_file = ''default.jpg'', p_dest_id = 1\<rparr>"

definition trek :: package where
  "trek = \<lparr>p_id = 2, p_name = ''Snow trek'', p_duration = None,
            p_price = 250, p_max_capacity = 6, p_image_file = ''default.jpg'', p_dest_id = 2\<rparr>"

definition booking1 :: booking where
  "booking1 = \<lparr>b_id = 1, b_user_id = 2, b_package_id = 1, b_travelers = 2,
                b_total_price = 200, b_status = ''Pending'', b_date_booked = 10\<rparr>"

definition booking2 :: booking where
  "booking2 = \<lparr>b_id = 2, b_user_id = 2, b_package_id = 1, b_travelers = 1,
                b_total_price = 100, b_status = ''Confirmed'', b_date_booked = 20\<rparr>"

definition booking3 :: booking where
  "booking3 = \<lparr>b_id = 3, b_user_id = 2, b_package_id = 2, b_travelers = 3,
                b_total_price = 750, b_status = ''Confirmed'', b_date_booked = 30\<rparr>"

definition agency :: db where
  "agency = \<lparr>users = [admin, alice], destinations = [goa, manali],
              packages = [beach, trek], bookings = [booking1, booking2, booking3]\<rparr>"

text \<open>
  A package whose destination id no destination has, as \<^verbatim>\<open>add_package\<close> stores it for
  the text 99 where foreign keys are not enforced, and a booking of it.
\<close>

definition ghost_tour :: package where
  "ghost_tour = \<lparr>p_id = 3, p_name = ''Ghost tour'', p_duration = None,
                  p_price = 10, p_max_capacity = 2, p_image_file = ''default.jpg'', p_dest_id = 99\<rparr>"

definition ghost_booking :: booking where
  "ghost_booking = \<lparr>b_id = 1, b_user_id = 2, b_package_id = 3, b_travelers = 2,
                     b_total_price = 20, b_status = ''Pending'', b_date_booked = 1000\<rparr>"

definition haunted :: db where
  "haunted = agency\<lparr>packages := [beach, trek, ghost_tour], bookings := [ghost_booking]\<rparr>"

definition post :: "(string \<times> string) list \<Rightarrow> request" where
  "post kvs = \<lparr>request_method = POST, form = map_of kvs, files = Map.empty\<rparr>"

section \<open>Lemmas\<close>

lemmas example_defs =
  agency_def admin_def alice_def goa_def manali_def beach_def trek_def
  booking1_def booking2_def booking3_def toy_env_def sqlite_env_def post_def
  ghost_tour_def ghost_booking_def haunted_def

lemmas parse_defs =
  int_field_def float_field_def example_int_def example_float_def travelers_of_def
  sqlite_integer_def

lemma concat_no_key:
  "k \<notin> set (map f xs) \<Longrightarrow> concat (map (\<lambda>x. if k = f x then g x else []) xs) = []"
  by (induction xs) auto

lemma concat_unique_key:
  "distinct (map f xs) \<Longrightarrow>
   concat (map (\<lambda>x. if k = f x then g x else []) xs) =
   (case find (\<lambda>x. f x = k) xs of None \<Rightarrow> [] | Some x \<Rightarrow> g x)"
proof (induction xs)
  case Nil
  show ?case by simp
next
  case (Cons x xs)
  show ?case
  proof (cases "k = f x")
    case True
    with Cons.prems have "k \<notin> set (map f xs)" by simp
    then have "concat (map (\<lambda>x. if k = f x then g x else []) xs) = []"
      by (rule concat_no_key)
    with True show ?thesis by simp
  next
    case False
    moreover from Cons have "concat (map (\<lambda>x. if k = f x then g x else []) xs) =
      (case find (\<lambda>x. f x = k) xs of None \<Rightarrow> [] | Some x \<Rightarrow> g x)" by simp
    ultimately show ?thesis by auto
  qed
qed

lemma active_packages_filter:
  assumes "distinct (map d_id (destinations s))"
  shows "active_packages s = filter (has_active_parent s) (packages s)"
proof -
  have one: "concat (map (\<lambda>d. if p_dest_id p = d_id d then if d_is_active d = True then [p] else [] else []) (destinations s))
      = (if has_active_parent s p then [p] else [])" for p
    unfolding concat_unique_key [OF assms] has_active_parent_def parent_def
    by (simp split: option.split)
  have "concat (map (\<lambda>p. concat (map (\<lambda>d. if p_dest_id p = d_id d then if d_is_active d = True then [p] else [] else []) (destinations s))) ps)
        = filter (has_active_parent s) ps" for ps
    by (induction ps) (simp_all add: one)
  then show ?thesis by (simp only: active_packages_def)
qed

lemma confirm_booking_found:
  assumes "find (\<lambda>b. b_id b = i) (bookings s) = Some b"
  shows "confirm_booking (Some u) i s =
           reply (Some u)
             (s\<lparr>bookings := map (\<lambda>b. if b_id b = i then b\<lparr>b_status := ''Confirmed''\<rparr> else b) (bookings s)\<rparr>)
             (Redirect ''admin_dashboard'')"
  using assms by (simp add: confirm_booking_def login_required_def)

lemma confirm_booking_missing:
  assumes "find (\<lambda>b. b_id b = i) (bookings s) = None" and "sqlite_integer i"
  shows "confirm_booking (Some u) i s = Inl AttributeError"
  using assms by (simp add: confirm_booking_def login_required_def)

lemma find_key_member:
  "x \<in> set xs \<Longrightarrow> \<exists>y. find (\<lambda>z. f z = f x) xs = Some y"
  by (induction xs) auto

lemma find_key_map:
  "find (\<lambda>z. f z = k) xs = Some y \<Longrightarrow> (\<And>z. f (g z) = f z) \<Longrightarrow>
   \<exists>y'. find (\<lambda>z. f z = k) (map g xs) = Some y'"
  by (induction xs) (auto split: if_splits)

subsection \<open>The routes keep the declared keys\<close>

text \<open>
  Every route that writes keeps the primary keys unique. The foreign keys are kept too,
  by \<^verbatim>\<open>add_package\<close> only where the engine enforces them. A fresh key is above every
  key of the table.
\<close>

lemma fold_max_bounds:
  "(a :: int) \<le> fold max ks a \<and> (\<forall>k \<in> set ks. k \<le> fold max ks a)"
proof (induction ks arbitrary: a)
  case Nil
  show ?case by simp
next
  case (Cons k ks)
  from Cons [of "max k a"] show ?case by auto
qed

lemma fresh_id_new: "fresh_id ks \<notin> set ks"
proof
  assume "fresh_id ks \<in> set ks"
  with fold_max_bounds [of 0 ks] have "fresh_id ks \<le> fold max ks 0" by blast
  then show False by (simp add: fresh_id_def)
qed

lemma add_destination_keeps_keys:
  assumes "primary_keys s" and "foreign_keys s" and "add_destination cu req s = Inr out"
  shows "primary_keys (store out) \<and> foreign_keys (store out)"
proof -
  note new = fresh_id_new [of "map d_id (destinations s)"]
  from assms new show ?thesis
    by (auto simp add: add_destination_def login_required_def reply_def primary_keys_def
        foreign_keys_def list_all_iff split: option.splits if_splits)
qed

lemma add_destination_keeps_primary_keys:
  assumes "primary_keys s" and "add_destination cu req s = Inr out"
  shows "primary_keys (store out)"
proof -
  note new = fresh_id_new [of "map d_id (destinations s)"]
  from assms new show ?thesis
    by (auto simp add: add_destination_def login_required_def reply_def primary_keys_def
        split: option.splits if_splits)
qed

lemma add_package_keeps_primary_keys:
  assumes "primary_keys s" and "add_package E cu req s = Inr out"
  shows "primary_keys (store out)"
proof -
  note new = fresh_id_new [of "map p_id (packages s)"]
  from assms new show ?thesis
    by (auto simp add: add_package_def login_required_def reply_def primary_keys_def
        split: option.splits if_splits sum.splits pyfloat.splits)
qed

lemma add_package_keeps_foreign_keys:
  assumes "foreign_keys s" and "enforce_foreign_keys E" and "add_package E cu req s = Inr out"
  shows "foreign_keys (store out)"
  using assms
  by (auto simp add: add_package_def login_required_def reply_def
      foreign_keys_def list_all_iff split: option.splits if_splits sum.splits pyfloat.splits)

lemma find_key_Some:
  "find (\<lambda>x. f x = k) xs = Some y \<Longrightarrow> k \<in> set (map f xs)"
  by (induction xs) (auto split: if_splits)

lemma book_package_keeps_keys:
  assumes "primary_keys s" and "foreign_keys s" and "book_package E cu pkg_id req s = Inr out"
  shows "primary_keys (store out) \<and> foreign_keys (store out)"
proof -
  note new = fresh_id_new [of "map b_id (bookings s)"]
  from assms new show ?thesis
    by (auto simp add: book_package_def login_required_def primary_keys_def
        foreign_keys_def list_all_iff split: option.splits if_splits sum.splits
        dest!: find_key_Some)
qed

lemma book_package_keeps_primary_keys:
  assumes "primary_keys s" and "book_package E cu pkg_id req s = Inr out"
  shows "primary_keys (store out)"
proof -
  note new = fresh_id_new [of "map b_id (bookings s)"]
  from assms new show ?thesis
    by (auto simp add: book_package_def login_required_def primary_keys_def
        split: option.splits if_splits sum.splits)
qed

lemma register_keeps_keys:
  assumes "primary_keys s" and "foreign_keys s" and "register E cu req s = Inr out"
  shows "primary_keys (store out) \<and> foreign_keys (store out)"
proof -
  note new = fresh_id_new [of "map u_id (users s)"]
  from assms new show ?thesis
    by (auto simp add: register_def reply_def primary_keys_def
        foreign_keys_def split: option.splits if_splits)
qed

lemma confirm_booking_keeps_keys:
  assumes "primary_keys s" and "foreign_keys s" and "confirm_booking cu i s = Inr out"
  shows "primary_keys (store out) \<and> foreign_keys (store out)"
proof -
  let ?c = "\<lambda>b. if b_id b = i then b\<lparr>b_status := ''Confirmed''\<rparr> else b"
  have ids: "b_id \<circ> ?c = b_id" by (rule ext) simp
  have pk: "list_all P (map ?c bs) = list_all P bs"
    if "\<And>b. P (b\<lparr>b_status := ''Confirmed''\<rparr>) = P b" for P bs
    using that by (induction bs) auto
  from assms show ?thesis
    by (auto simp add: confirm_booking_def login_required_def reply_def primary_keys_def
        foreign_keys_def ids pk split: option.splits if_splits)
qed

lemma register_keeps_primary_keys:
  assumes "primary_keys s" and "register E cu req s = Inr out"
  shows "primary_keys (store out)"
proof -
  note new = fresh_id_new [of "map u_id (users s)"]
  from assms new show ?thesis
    by (auto simp add: register_def reply_def primary_keys_def split: option.splits if_splits)
qed

lemma confirm_booking_keeps_primary_keys:
  assumes "primary_keys s" and "confirm_booking cu i s = Inr out"
  shows "primary_keys (store out)"
proof -
  let ?c = "\<lambda>b. if b_id b = i then b\<lparr>b_status := ''Confirmed''\<rparr> else b"
  have ids: "b_id \<circ> ?c = b_id" by (rule ext) simp
  from assms show ?thesis
    by (auto simp add: confirm_booking_def login_required_def reply_def primary_keys_def ids
        split: option.splits if_splits)
qed

section \<open>Claims\<close>

text \<open>
  C1. The claim: an authenticated account whose role is not \<^verbatim>\<open>admin\<close> is sent to the
  public index by \<^verbatim>\<open>add_destination\<close>, \<^verbatim>\<open>add_package\<close> and \<^verbatim>\<open>confirm_booking\<close>, and
  nothing stored changes. The three handlers have no role check (only
  \<^verbatim>\<open>admin_dashboard\<close> has one): for the customer \<open>alice\<close> each of them does its work and
  redirects to the dashboard.
\<close>

theorem customer_performs_admin_operations:
  "u_role alice \<noteq> ''admin'' \<and>
   add_destination (Some alice) (post [(''name'', ''Leh''), (''location'', ''Ladakh'')]) agency =
     Inr \<lparr>response = Redirect ''admin_dashboard'', flashed = [], logged_in = Some alice,
          store = agency\<lparr>destinations := [goa, manali,
            \<lparr>d_id = 3, d_name = ''Leh'', d_location = ''Ladakh'', d_description = None,
              d_best_season = None, d_is_active = True\<rparr>]\<rparr>\<rparr> \<and>
   add_package toy_env (Some alice)
       (post [(''name'', ''Day trip''), (''price'', ''1''), (''capacity'', ''5''), (''dest_id'', ''1'')])
       agency =
     Inr \<lparr>response = Redirect ''admin_dashboard'', flashed = [], logged_in = Some alice,
          store = agency\<lparr>packages := [beach, trek,
            \<lparr>p_id = 3, p_name = ''Day trip'', p_duration = None, p_price = 1,
              p_max_capacity = 5, p_image_file = ''default.jpg'', p_dest_id = 1\<rparr>]\<rparr>\<rparr> \<and>
   confirm_booking (Some alice) 1 agency =
     Inr \<lparr>response = Redirect ''admin_dashboard'', flashed = [], logged_in = Some alice,
          store = agency\<lparr>bookings := [booking1\<lparr>b_status := ''Confirmed''\<rparr>, booking2, booking3]\<rparr>\<rparr>"
  by (simp add: example_defs parse_defs add_destination_def add_package_def confirm_booking_def
      login_required_def reply_def fresh_id_def image_filename_def)

text \<open>
  C2. The claim: for a booking id that no booking has, \<^verbatim>\<open>confirm_booking\<close> by an admin
  is a silent no-op that raises no error. The handler assigns to the status of \<^verbatim>\<open>None\<close>:
  for the id 7, which the example database does not hold, the request ends in
  \<^verbatim>\<open>AttributeError\<close>.
\<close>

theorem confirm_booking_unknown_id_raises:
  "find (\<lambda>b. b_id b = 7) (bookings agency) = None \<and>
   confirm_booking (Some admin) 7 agency = Inl AttributeError"
  by (simp add: agency_def booking1_def booking2_def booking3_def confirm_booking_def
      login_required_def sqlite_integer_def)

text \<open>
  C6. Where destination ids are unique, the public index lists exactly the packages whose
  destination is active, in storage order: a package whose destination is inactive, or
  that has no destination, is left out.
\<close>

theorem index_lists_active_packages:
  assumes "distinct (map d_id (destinations s))"
  shows "index current_user s =
           Inr \<lparr>response = Render (Index_html (filter (has_active_parent s) (packages s))),
                flashed = [], logged_in = current_user, store = s\<rparr>"
  by (simp add: index_def reply_def active_packages_filter [OF assms])

theorem index_lists_active_packages_witness:
  "distinct (map d_id (destinations agency)) \<and>
   has_active_parent agency beach \<and> \<not> has_active_parent agency trek \<and>
   index None agency =
     Inr \<lparr>response = Render (Index_html [beach]), flashed = [], logged_in = None, store = agency\<rparr>"
  using index_lists_active_packages [of agency None]
  by (simp add: example_defs has_active_parent_def parent_def)

text \<open>
  C9. For a stored booking \<open>b\<close>, \<^verbatim>\<open>confirm_booking\<close> on its id stores \<open>b\<close> with the status
  \<^verbatim>\<open>Confirmed\<close>, and a second confirmation answers the same and leaves the database as
  the first one made it.
\<close>

theorem confirm_booking_idempotent:
  assumes "b \<in> set (bookings s)"
  shows "\<exists>s'. confirm_booking (Some u) (b_id b) s =
                 Inr \<lparr>response = Redirect ''admin_dashboard'', flashed = [],
                      logged_in = Some u, store = s'\<rparr> \<and>
               b\<lparr>b_status := ''Confirmed''\<rparr> \<in> set (bookings s') \<and>
               confirm_booking (Some u) (b_id b) s' =
                 Inr \<lparr>response = Redirect ''admin_dashboard'', flashed = [],
                      logged_in = Some u, store = s'\<rparr>"
proof -
  let ?c = "\<lambda>x. if b_id x = b_id b then x\<lparr>b_status := ''Confirmed''\<rparr> else x"
  let ?s' = "s\<lparr>bookings := map ?c (bookings s)\<rparr>"
  from find_key_member [OF assms, of b_id] obtain y
    where y: "find (\<lambda>z. b_id z = b_id b) (bookings s) = Some y" by blast
  have c_id: "b_id (?c z) = b_id z" for z by simp
  from find_key_map [OF y, of ?c] c_id obtain y'
    where y': "find (\<lambda>z. b_id z = b_id b) (bookings ?s') = Some y'" by auto
  have twice: "?c \<circ> ?c = ?c" by (rule ext) simp
  have 1: "confirm_booking (Some u) (b_id b) s = reply (Some u) ?s' (Redirect ''admin_dashboard'')"
    by (rule confirm_booking_found [OF y])
  have 2: "confirm_booking (Some u) (b_id b) ?s' = reply (Some u) ?s' (Redirect ''admin_dashboard'')"
    unfolding confirm_booking_found [OF y'] by (simp add: twice)
  have 3: "b\<lparr>b_status := ''Confirmed''\<rparr> \<in> set (bookings ?s')"
    using assms by (auto simp: image_iff intro!: bexI [of _ b])
  from 1 2 3 show ?thesis unfolding reply_def by blast
qed

theorem confirm_booking_idempotent_witness:
  "booking1 \<in> set (bookings agency) \<and>
   confirm_booking (Some admin) 1 agency =
     Inr \<lparr>response = Redirect ''admin_dashboard'', flashed = [], logged_in = Some admin,
          store = agency\<lparr>bookings := [booking1\<lparr>b_status := ''Confirmed''\<rparr>, booking2, booking3]\<rparr>\<rparr> \<and>
   confirm_booking (Some admin) 1
       (agency\<lparr>bookings := [booking1\<lparr>b_status := ''Confirmed''\<rparr>, booking2, booking3]\<rparr>) =
     Inr \<lparr>response = Redirect ''admin_dashboard'', flashed = [], logged_in = Some admin,
          store = agency\<lparr>bookings := [booking1\<lparr>b_status := ''Confirmed''\<rparr>, booking2, booking3]\<rparr>\<rparr>"
  using confirm_booking_idempotent [of booking1 agency admin]
  by (simp add: agency_def booking1_def booking2_def booking3_def confirm_booking_def login_required_def reply_def)

lemma revenue_sum: "revenue s = confirmed_total s"
  by (simp add: revenue_def confirmed_total_def sql_sum_def or_zero_def)

text \<open>
  C4. The revenue of the dashboard is the sum of the total prices of the bookings whose
  status is \<^verbatim>\<open>Confirmed\<close>; it is 0 when there is none; and it is the figure the
  dashboard of an admin shows.
\<close>

theorem revenue_is_confirmed_total:
  "revenue s = confirmed_total s \<and>
   (filter (\<lambda>b. b_status b = ''Confirmed'') (bookings s) = [] \<longrightarrow> revenue s = 0) \<and>
   (u_role u = ''admin'' \<longrightarrow>
      admin_dashboard (Some u) s =
        Inr \<lparr>response = Render (Dashboard_html (confirmed_total s) (length (bookings s))
                 (popular_dest s) (rev (sort_key b_date_booked (bookings s)))),
             flashed = [], logged_in = Some u, store = s\<rparr>)"
  by (simp add: revenue_sum admin_dashboard_def login_required_def reply_def)
     (simp add: confirmed_total_def)

theorem revenue_is_confirmed_total_witness:
  "revenue agency = 850 \<and> confirmed_total agency = 850 \<and>
   filter (\<lambda>b. b_status b = ''Confirmed'') (bookings (agency\<lparr>bookings := [booking1]\<rparr>)) = [] \<and>
   revenue (agency\<lparr>bookings := [booking1]\<rparr>) = 0 \<and>
   u_role admin = ''admin'' \<and>
   (\<exists>n p bs. admin_dashboard (Some admin) agency =
        Inr \<lparr>response = Render (Dashboard_html 850 n p bs),
             flashed = [], logged_in = Some admin, store = agency\<rparr>)"
  using revenue_is_confirmed_total [of agency admin]
    revenue_is_confirmed_total [of "agency\<lparr>bookings := [booking1]\<rparr>" admin]
  by (simp add: example_defs confirmed_total_def)

lemma book_package_stores:
  assumes "sqlite_integer pkg_id" and "find (\<lambda>p. p_id p = pkg_id) (packages s) = Some pkg"
    and "travelers_of E req = Inr num" and "sqlite_integer num"
  shows "book_package E (Some u) pkg_id req s =
           Inr \<lparr>response = Redirect ''my_bookings'',
                flashed = [(''Booking request submitted!'', ''success'')],
                logged_in = Some u,
                store = s\<lparr>bookings := bookings s @
                  [\<lparr>b_id = fresh_id (map b_id (bookings s)), b_user_id = u_id u,
                    b_package_id = pkg_id, b_travelers = num,
                    b_total_price = p_price pkg * real_of_int num,
                    b_status = ''Pending'', b_date_booked = utcnow E\<rparr>]\<rparr>\<rparr>"
  using assms by (simp add: book_package_def login_required_def)

lemma book_package_missing:
  assumes "sqlite_integer pkg_id" and "find (\<lambda>p. p_id p = pkg_id) (packages s) = None"
  shows "book_package E (Some u) pkg_id req s = Inl NotFound"
  using assms by (simp add: book_package_def login_required_def)

lemma my_bookings_after_set_price:
  "my_bookings (Some u) (set_price i x s) =
     Inr \<lparr>response = Render (Customer_dash_html (filter (\<lambda>c. b_user_id c = u_id u) (bookings s))),
          flashed = [], logged_in = Some u, store = set_price i x s\<rparr>"
  by (simp add: my_bookings_def login_required_def reply_def set_price_def)

text \<open>
  C3. The claim: for every traveler count and package id. A traveler count or a package
  id beyond 64 bits ends the request in \<^verbatim>\<open>OverflowError\<close>: no booking is made for the
  count \<open>2 ^ 63\<close>, and the unknown id \<open>2 ^ 63\<close> is not answered by \<open>NotFound\<close>.
\<close>

theorem book_package_beyond_64_bits:
  "py_int sqlite_env ''9223372036854775808'' = Some (2 ^ 63) \<and>
   find (\<lambda>p. p_id p = 1) (packages agency) = Some beach \<and>
   book_package sqlite_env (Some alice) 1 (post [(''travelers'', ''9223372036854775808'')]) agency =
     Inl OverflowError \<and>
   find (\<lambda>p. p_id p = 2 ^ 63) (packages agency) = None \<and>
   book_package sqlite_env (Some alice) (2 ^ 63) (post [(''travelers'', ''2'')]) agency =
     Inl OverflowError"
  by (simp add: example_defs parse_defs book_package_def login_required_def)

text \<open>
  C3, as the code has it. For an authenticated account \<open>u\<close>, a package id that is a
  64-bit integer, a package \<open>pkg\<close> found under it and a traveler count \<open>n\<close> that is a
  64-bit integer, \<^verbatim>\<open>book_package\<close> appends exactly one booking, with the total price
  \<open>p_price pkg * n\<close> and the status \<^verbatim>\<open>Pending\<close>. The total is a stored column: after
  any later change of the price of the package, the bookings of the account are listed
  with the new booking as it was stored. When no package has the id, the request ends in
  \<open>NotFound\<close> and commits nothing.
\<close>

theorem book_package_total_price:
  assumes "sqlite_integer pkg_id"
  shows "(find (\<lambda>p. p_id p = pkg_id) (packages s) = None \<longrightarrow>
            book_package E (Some u) pkg_id req s = Inl NotFound) \<and>
         (find (\<lambda>p. p_id p = pkg_id) (packages s) = Some pkg \<and>
          travelers_of E req = Inr n \<and> sqlite_integer n \<longrightarrow>
            (\<exists>b. book_package E (Some u) pkg_id req s =
                    Inr \<lparr>response = Redirect ''my_bookings'',
                         flashed = [(''Booking request submitted!'', ''success'')],
                         logged_in = Some u,
                         store = s\<lparr>bookings := bookings s @ [b]\<rparr>\<rparr> \<and>
                 b_user_id b = u_id u \<and> b_package_id b = pkg_id \<and> b_travelers b = n \<and>
                 b_total_price b = p_price pkg * real_of_int n \<and> b_status b = ''Pending'' \<and>
                 b_date_booked b = utcnow E \<and>
                 (\<forall>x. my_bookings (Some u) (set_price pkg_id x (s\<lparr>bookings := bookings s @ [b]\<rparr>)) =
                        Inr \<lparr>response = Render (Customer_dash_html
                               (filter (\<lambda>c. b_user_id c = u_id u) (bookings s) @ [b])),
                             flashed = [], logged_in = Some u,
                             store = set_price pkg_id x (s\<lparr>bookings := bookings s @ [b]\<rparr>)\<rparr>)))"
proof (intro conjI impI)
  assume "find (\<lambda>p. p_id p = pkg_id) (packages s) = None"
  with assms show "book_package E (Some u) pkg_id req s = Inl NotFound"
    by (rule book_package_missing)
next
  let ?b = "\<lparr>b_id = fresh_id (map b_id (bookings s)), b_user_id = u_id u,
              b_package_id = pkg_id, b_travelers = n,
              b_total_price = p_price pkg * real_of_int n,
              b_status = ''Pending'', b_date_booked = utcnow E\<rparr>"
  assume a: "find (\<lambda>p. p_id p = pkg_id) (packages s) = Some pkg \<and>
    travelers_of E req = Inr n \<and> sqlite_integer n"
  with assms have stored: "book_package E (Some u) pkg_id req s =
           Inr \<lparr>response = Redirect ''my_bookings'',
                flashed = [(''Booking request submitted!'', ''success'')],
                logged_in = Some u,
                store = s\<lparr>bookings := bookings s @ [?b]\<rparr>\<rparr>"
    by (intro book_package_stores) simp_all
  have listed: "my_bookings (Some u) (set_price pkg_id x (s\<lparr>bookings := bookings s @ [?b]\<rparr>)) =
      Inr \<lparr>response = Render (Customer_dash_html
             (filter (\<lambda>c. b_user_id c = u_id u) (bookings s) @ [?b])),
           flashed = [], logged_in = Some u,
           store = set_price pkg_id x (s\<lparr>bookings := bookings s @ [?b]\<rparr>)\<rparr>" for x
    unfolding my_bookings_after_set_price by simp
  show "\<exists>b. book_package E (Some u) pkg_id req s =
                    Inr \<lparr>response = Redirect ''my_bookings'',
                         flashed = [(''Booking request submitted!'', ''success'')],
                         logged_in = Some u,
                         store = s\<lparr>bookings := bookings s @ [b]\<rparr>\<rparr> \<and>
                 b_user_id b = u_id u \<and> b_package_id b = pkg_id \<and> b_travelers b = n \<and>
                 b_total_price b = p_price pkg * real_of_int n \<and> b_status b = ''Pending'' \<and>
                 b_date_booked b = utcnow E \<and>
                 (\<forall>x. my_bookings (Some u) (set_price pkg_id x (s\<lparr>bookings := bookings s @ [b]\<rparr>)) =
                        Inr \<lparr>response = Render (Customer_dash_html
                               (filter (\<lambda>c. b_user_id c = u_id u) (bookings s) @ [b])),
                             flashed = [], logged_in = Some u,
                             store = set_price pkg_id x (s\<lparr>bookings := bookings s @ [b]\<rparr>)\<rparr>)"
    by (rule exI [of _ ?b]) (simp add: stored listed)
qed

theorem book_package_total_price_witness:
  "sqlite_integer 9 \<and> find (\<lambda>p. p_id p = 9) (packages agency) = None \<and>
   book_package toy_env (Some alice) 9 (post [(''travelers'', ''2'')]) agency = Inl NotFound \<and>
   sqlite_integer 1 \<and> find (\<lambda>p. p_id p = 1) (packages agency) = Some beach \<and>
   travelers_of toy_env (post [(''travelers'', ''2'')]) = Inr 2 \<and> sqlite_integer 2 \<and>
   book_package toy_env (Some alice) 1 (post [(''travelers'', ''2'')]) agency =
     Inr \<lparr>response = Redirect ''my_bookings'',
          flashed = [(''Booking request submitted!'', ''success'')],
          logged_in = Some alice,
          store = agency\<lparr>bookings := [booking1, booking2, booking3,
            \<lparr>b_id = 4, b_user_id = 2, b_package_id = 1, b_travelers = 2, b_total_price = 200,
              b_status = ''Pending'', b_date_booked = 1000\<rparr>]\<rparr>\<rparr> \<and>
   my_bookings (Some alice)
       (set_price 1 999 (agency\<lparr>bookings := [booking1, booking2, booking3,
            \<lparr>b_id = 4, b_user_id = 2, b_package_id = 1, b_travelers = 2, b_total_price = 200,
              b_status = ''Pending'', b_date_booked = 1000\<rparr>]\<rparr>)) =
     Inr \<lparr>response = Render (Customer_dash_html [booking1, booking2, booking3,
            \<lparr>b_id = 4, b_user_id = 2, b_package_id = 1, b_travelers = 2, b_total_price = 200,
              b_status = ''Pending'', b_date_booked = 1000\<rparr>]),
          flashed = [], logged_in = Some alice,
          store = set_price 1 999 (agency\<lparr>bookings := [booking1, booking2, booking3,
            \<lparr>b_id = 4, b_user_id = 2, b_package_id = 1, b_travelers = 2, b_total_price = 200,
              b_status = ''Pending'', b_date_booked = 1000\<rparr>]\<rparr>)\<rparr>"
proof -
  have r9: "sqlite_integer 9" and r1: "sqlite_integer 1" by (simp_all add: sqlite_integer_def)
  note missing = book_package_total_price [OF r9,
      where s = agency and E = toy_env and u = alice and req = "post [(''travelers'', ''2'')]"]
  note found = book_package_total_price [OF r1,
      where s = agency and E = toy_env and u = alice and req = "post [(''travelers'', ''2'')]"
        and pkg = beach and n = 2]
  from missing found show ?thesis
    by (simp add: example_defs parse_defs book_package_def login_required_def fresh_id_def
        my_bookings_def reply_def set_price_def)
qed

text \<open>
  C10. The claim: the traveler count is otherwise taken as any submitted integer. A
  count below the 64-bit integers ends the request in \<^verbatim>\<open>OverflowError\<close>.
\<close>

theorem book_package_count_below_64_bits:
  "py_int sqlite_env ''-9223372036854775809'' = Some (- (2 ^ 63) - 1) \<and>
   find (\<lambda>p. p_id p = 2) (packages agency) = Some trek \<and>
   book_package sqlite_env (Some alice) 2 (post [(''travelers'', ''-9223372036854775809'')]) agency =
     Inl OverflowError"
  by (simp add: example_defs parse_defs book_package_def login_required_def)

text \<open>
  C10, as the code has it. When the form has no \<^verbatim>\<open>travelers\<close> field, the booking of an
  existing package is made for one traveler, at the price of the package. A submitted
  count is taken as \<^verbatim>\<open>int\<close> reads it when it is a 64-bit integer, whatever its sign: the
  witness books for \<open>-3\<close> travelers.
\<close>

theorem book_package_default_travelers:
  assumes "sqlite_integer pkg_id" and "find (\<lambda>p. p_id p = pkg_id) (packages s) = Some pkg"
  shows "(form req ''travelers'' = None \<longrightarrow>
          book_package E (Some u) pkg_id req s =
            Inr \<lparr>response = Redirect ''my_bookings'',
                 flashed = [(''Booking request submitted!'', ''success'')],
                 logged_in = Some u,
                 store = s\<lparr>bookings := bookings s @
                   [\<lparr>b_id = fresh_id (map b_id (bookings s)), b_user_id = u_id u,
                     b_package_id = pkg_id, b_travelers = 1, b_total_price = p_price pkg,
                     b_status = ''Pending'', b_date_booked = utcnow E\<rparr>]\<rparr>\<rparr>) \<and>
         (form req ''travelers'' = Some t \<and> py_int E t = Some n \<and> sqlite_integer n \<longrightarrow>
          (\<exists>b. book_package E (Some u) pkg_id req s =
                  Inr \<lparr>response = Redirect ''my_bookings'',
                       flashed = [(''Booking request submitted!'', ''success'')],
                       logged_in = Some u,
                       store = s\<lparr>bookings := bookings s @ [b]\<rparr>\<rparr> \<and>
               b_user_id b = u_id u \<and> b_package_id b = pkg_id \<and> b_travelers b = n \<and>
               b_status b = ''Pending''))"
proof (intro conjI impI)
  assume "form req ''travelers'' = None"
  then have "travelers_of E req = Inr 1" by (simp add: travelers_of_def)
  moreover have "sqlite_integer 1" by (simp add: sqlite_integer_def)
  ultimately have "book_package E (Some u) pkg_id req s =
            Inr \<lparr>response = Redirect ''my_bookings'',
                 flashed = [(''Booking request submitted!'', ''success'')],
                 logged_in = Some u,
                 store = s\<lparr>bookings := bookings s @
                   [\<lparr>b_id = fresh_id (map b_id (bookings s)), b_user_id = u_id u,
                     b_package_id = pkg_id, b_travelers = 1,
                     b_total_price = p_price pkg * real_of_int 1,
                     b_status = ''Pending'', b_date_booked = utcnow E\<rparr>]\<rparr>\<rparr>"
    by (rule book_package_stores [OF assms])
  then show "book_package E (Some u) pkg_id req s =
            Inr \<lparr>response = Redirect ''my_bookings'',
                 flashed = [(''Booking request submitted!'', ''success'')],
                 logged_in = Some u,
                 store = s\<lparr>bookings := bookings s @
                   [\<lparr>b_id = fresh_id (map b_id (bookings s)), b_user_id = u_id u,
                     b_package_id = pkg_id, b_travelers = 1, b_total_price = p_price pkg,
                     b_status = ''Pending'', b_date_booked = utcnow E\<rparr>]\<rparr>\<rparr>"
    by simp
next
  assume a: "form req ''travelers'' = Some t \<and> py_int E t = Some n \<and> sqlite_integer n"
  then have "travelers_of E req = Inr n" by (simp add: travelers_of_def int_field_def)
  moreover from a have "sqlite_integer n" by simp
  ultimately have "book_package E (Some u) pkg_id req s =
            Inr \<lparr>response = Redirect ''my_bookings'',
                 flashed = [(''Booking request submitted!'', ''success'')],
                 logged_in = Some u,
                 store = s\<lparr>bookings := bookings s @
                   [\<lparr>b_id = fresh_id (map b_id (bookings s)), b_user_id = u_id u,
                     b_package_id = pkg_id, b_travelers = n,
                     b_total_price = p_price pkg * real_of_int n,
                     b_status = ''Pending'', b_date_booked = utcnow E\<rparr>]\<rparr>\<rparr>"
    by (rule book_package_stores [OF assms])
  then show "\<exists>b. book_package E (Some u) pkg_id req s =
                  Inr \<lparr>response = Redirect ''my_bookings'',
                       flashed = [(''Booking request submitted!'', ''success'')],
                       logged_in = Some u,
                       store = s\<lparr>bookings := bookings s @ [b]\<rparr>\<rparr> \<and>
               b_user_id b = u_id u \<and> b_package_id b = pkg_id \<and> b_travelers b = n \<and>
               b_status b = ''Pending''"
    by (intro exI [of _ "\<lparr>b_id = fresh_id (map b_id (bookings s)), b_user_id = u_id u,
                     b_package_id = pkg_id, b_travelers = n,
                     b_total_price = p_price pkg * real_of_int n,
                     b_status = ''Pending'', b_date_booked = utcnow E\<rparr>"]) simp
qed

theorem book_package_default_travelers_witness:
  "sqlite_integer 2 \<and> find (\<lambda>p. p_id p = 2) (packages agency) = Some trek \<and>
   form (post []) ''travelers'' = None \<and>
   book_package toy_env (Some alice) 2 (post []) agency =
     Inr \<lparr>response = Redirect ''my_bookings'',
          flashed = [(''Booking request submitted!'', ''success'')],
          logged_in = Some alice,
          store = agency\<lparr>bookings := [booking1, booking2, booking3,
            \<lparr>b_id = 4, b_user_id = 2, b_package_id = 2, b_travelers = 1, b_total_price = 250,
              b_status = ''Pending'', b_date_booked = 1000\<rparr>]\<rparr>\<rparr> \<and>
   py_int toy_env ''-3'' = Some (- 3) \<and> sqlite_integer (- 3) \<and>
   book_package toy_env (Some alice) 2 (post [(''travelers'', ''-3'')]) agency =
     Inr \<lparr>response = Redirect ''my_bookings'',
          flashed = [(''Booking request submitted!'', ''success'')],
          logged_in = Some alice,
          store = agency\<lparr>bookings := [booking1, booking2, booking3,
            \<lparr>b_id = 4, b_user_id = 2, b_package_id = 2, b_travelers = - 3, b_total_price = - 750,
              b_status = ''Pending'', b_date_booked = 1000\<rparr>]\<rparr>\<rparr>"
proof -
  have r2: "sqlite_integer 2" by (simp add: sqlite_integer_def)
  have trek: "find (\<lambda>p. p_id p = 2) (packages agency) = Some trek" by (simp add: example_defs)
  note absent = book_package_default_travelers [OF r2 trek,
      where req = "post []" and E = toy_env and u = alice]
  note given = book_package_default_travelers [OF r2 trek,
      where req = "post [(''travelers'', ''-3'')]" and E = toy_env and u = alice
        and t = "''-3''" and n = "- 3"]
  from absent given show ?thesis
    by (simp add: example_defs parse_defs fresh_id_def book_package_def login_required_def)
qed

lemma add_package_price_error:
  assumes "request_method req = POST" and "float_field E (form req ''price'') = Inl e"
  shows "add_package E (Some u) req s = Inl e"
  using assms by (simp add: add_package_def login_required_def)

lemma add_package_capacity_error:
  assumes "request_method req = POST" and "float_field E (form req ''price'') = Inr x"
    and "int_field E (form req ''capacity'') = Inl e"
  shows "add_package E (Some u) req s = Inl e"
  using assms by (simp add: add_package_def login_required_def)

lemma add_package_stores:
  assumes "request_method req = POST" and "float_field E (form req ''price'') = Inr (Number x)"
    and "int_field E (form req ''capacity'') = Inr c" and "sqlite_integer c"
    and "int_field E (form req ''dest_id'') = Inr k" and "sqlite_integer k"
    and "form req ''name'' = Some name"
    and "enforce_foreign_keys E \<longrightarrow> k \<in> set (map d_id (destinations s))"
  shows "add_package E (Some u) req s =
           Inr \<lparr>response = Redirect ''admin_dashboard'', flashed = [], logged_in = Some u,
                store = s\<lparr>packages := packages s @
                  [\<lparr>p_id = fresh_id (map p_id (packages s)), p_name = name,
                    p_duration = form req ''duration'', p_price = x, p_max_capacity = c,
                    p_image_file = image_filename E req, p_dest_id = k\<rparr>]\<rparr>\<rparr>"
  using assms by (auto simp add: add_package_def login_required_def reply_def)

text \<open>
  C7. The claim: a price or a capacity that does not read, or is not positive, is refused
  and no package is created. \<^verbatim>\<open>add_package\<close> has no check of the sign: the price \<open>-5\<close>
  and the capacity \<open>0\<close> are stored.
\<close>

theorem add_package_stores_nonpositive:
  "py_float toy_env ''-5'' = Some (Number (- 5)) \<and> py_int toy_env ''0'' = Some 0 \<and>
   add_package toy_env (Some admin)
       (post [(''name'', ''Free ride''), (''price'', ''-5''), (''capacity'', ''0''), (''dest_id'', ''1'')])
       agency =
     Inr \<lparr>response = Redirect ''admin_dashboard'', flashed = [], logged_in = Some admin,
          store = agency\<lparr>packages := [beach, trek,
            \<lparr>p_id = 3, p_name = ''Free ride'', p_duration = None, p_price = - 5,
              p_max_capacity = 0, p_image_file = ''default.jpg'', p_dest_id = 1\<rparr>]\<rparr>\<rparr>"
  by (simp add: example_defs parse_defs add_package_def login_required_def reply_def
      fresh_id_def image_filename_def)

text \<open>
  C7, as the code has it. A price that \<^verbatim>\<open>float\<close> does not read, or a capacity that
  \<^verbatim>\<open>int\<close> does not read, ends the request in \<^verbatim>\<open>ValueError\<close> with nothing committed.
  The sign is not looked at: when the price reads as a number and the capacity as a
  64-bit integer, and the rest of the request is in order (a destination id that reads
  as a 64-bit integer and, where the engine enforces it, is the id of a destination; a
  name), the package is created with that price and that capacity, negative, zero or
  positive.
\<close>

theorem add_package_checks_parse_only:
  assumes "request_method req = POST"
  shows "(form req ''price'' = Some t \<and> py_float E t = None \<longrightarrow>
            add_package E (Some u) req s = Inl ValueError) \<and>
         (form req ''price'' = Some t \<and> py_float E t = Some v \<and>
          form req ''capacity'' = Some t' \<and> py_int E t' = None \<longrightarrow>
            add_package E (Some u) req s = Inl ValueError) \<and>
         (form req ''price'' = Some t \<and> py_float E t = Some (Number x) \<and>
          form req ''capacity'' = Some t' \<and> py_int E t' = Some c \<and> sqlite_integer c \<and>
          int_field E (form req ''dest_id'') = Inr k \<and> sqlite_integer k \<and>
          form req ''name'' = Some name \<and>
          (enforce_foreign_keys E \<longrightarrow> k \<in> set (map d_id (destinations s))) \<longrightarrow>
            add_package E (Some u) req s =
              Inr \<lparr>response = Redirect ''admin_dashboard'', flashed = [], logged_in = Some u,
                   store = s\<lparr>packages := packages s @
                     [\<lparr>p_id = fresh_id (map p_id (packages s)), p_name = name,
                       p_duration = form req ''duration'', p_price = x, p_max_capacity = c,
                       p_image_file = image_filename E req, p_dest_id = k\<rparr>]\<rparr>\<rparr>)"
proof (intro conjI impI)
  assume "form req ''price'' = Some t \<and> py_float E t = None"
  then have "float_field E (form req ''price'') = Inl ValueError"
    by (simp add: float_field_def)
  with assms show "add_package E (Some u) req s = Inl ValueError"
    by (rule add_package_price_error)
next
  assume "form req ''price'' = Some t \<and> py_float E t = Some v \<and>
          form req ''capacity'' = Some t' \<and> py_int E t' = None"
  then have "float_field E (form req ''price'') = Inr v"
    and "int_field E (form req ''capacity'') = Inl ValueError"
    by (simp_all add: float_field_def int_field_def)
  with assms show "add_package E (Some u) req s = Inl ValueError"
    by (rule add_package_capacity_error)
next
  assume a: "form req ''price'' = Some t \<and> py_float E t = Some (Number x) \<and>
          form req ''capacity'' = Some t' \<and> py_int E t' = Some c \<and> sqlite_integer c \<and>
          int_field E (form req ''dest_id'') = Inr k \<and> sqlite_integer k \<and>
          form req ''name'' = Some name \<and>
          (enforce_foreign_keys E \<longrightarrow> k \<in> set (map d_id (destinations s)))"
  then have "float_field E (form req ''price'') = Inr (Number x)"
    and "int_field E (form req ''capacity'') = Inr c"
    by (simp_all add: float_field_def int_field_def)
  with assms a show "add_package E (Some u) req s =
              Inr \<lparr>response = Redirect ''admin_dashboard'', flashed = [], logged_in = Some u,
                   store = s\<lparr>packages := packages s @
                     [\<lparr>p_id = fresh_id (map p_id (packages s)), p_name = name,
                       p_duration = form req ''duration'', p_price = x, p_max_capacity = c,
                       p_image_file = image_filename E req, p_dest_id = k\<rparr>]\<rparr>\<rparr>"
    by (intro add_package_stores) simp_all
qed

theorem add_package_checks_parse_only_witness:
  "request_method (post [(''name'', ''Trip''), (''price'', ''cheap''), (''capacity'', ''4''), (''dest_id'', ''1'')]) = POST \<and>
   py_float toy_env ''cheap'' = None \<and>
   add_package toy_env (Some admin)
     (post [(''name'', ''Trip''), (''price'', ''cheap''), (''capacity'', ''4''), (''dest_id'', ''1'')]) agency
     = Inl ValueError \<and>
   py_float toy_env ''99.5'' = Some (Number (199 / 2)) \<and> py_int toy_env ''four'' = None \<and>
   add_package toy_env (Some admin)
     (post [(''name'', ''Trip''), (''price'', ''99.5''), (''capacity'', ''four''), (''dest_id'', ''1'')]) agency
     = Inl ValueError \<and>
   py_int toy_env ''4'' = Some 4 \<and> sqlite_integer 4 \<and> sqlite_integer 1 \<and>
   add_package toy_env (Some admin)
     (post [(''name'', ''Trip''), (''price'', ''99.5''), (''capacity'', ''4''), (''dest_id'', ''1'')]) agency
     = Inr \<lparr>response = Redirect ''admin_dashboard'', flashed = [], logged_in = Some admin,
          store = agency\<lparr>packages := [beach, trek,
            \<lparr>p_id = 3, p_name = ''Trip'', p_duration = None, p_price = 199 / 2,
              p_max_capacity = 4, p_image_file = ''default.jpg'', p_dest_id = 1\<rparr>]\<rparr>\<rparr>"
proof -
  note unread_price = add_package_checks_parse_only
      [where req = "post [(''name'', ''Trip''), (''price'', ''cheap''), (''capacity'', ''4''), (''dest_id'', ''1'')]"
         and t = "''cheap''" and E = toy_env and u = admin and s = agency]
  note unread_capacity = add_package_checks_parse_only
      [where req = "post [(''name'', ''Trip''), (''price'', ''99.5''), (''capacity'', ''four''), (''dest_id'', ''1'')]"
         and t = "''99.5''" and E = toy_env and u = admin and s = agency
         and v = "Number (199 / 2)" and t' = "''four''"]
  note stored = add_package_checks_parse_only
      [where req = "post [(''name'', ''Trip''), (''price'', ''99.5''), (''capacity'', ''4''), (''dest_id'', ''1'')]"
         and t = "''99.5''" and E = toy_env and u = admin and s = agency
         and x = "199 / 2" and t' = "''4''" and c = 4 and k = 1 and name = "''Trip''"]
  from unread_price unread_capacity stored show ?thesis
    by (simp add: example_defs parse_defs fresh_id_def image_filename_def)
qed








lemma length_filter_concat:
  "length (filter P (concat (map f xs))) = sum_list (map (\<lambda>x. length (filter P (f x))) xs)"
  by (induction xs) simp_all

lemma sum_list_unique_key:
  "distinct (map f xs) \<Longrightarrow> x \<in> set xs \<Longrightarrow>
   sum_list (map (\<lambda>y. if f y = f x then h y else (0::nat)) xs) = h x"
proof (induction xs)
  case Nil
  then show ?case by simp
next
  case (Cons a xs)
  have zero: "f x \<notin> set (map f ys) \<Longrightarrow>
      sum_list (map (\<lambda>y. if f y = f x then h y else (0::nat)) ys) = 0" for ys
    by (induction ys) auto
  show ?case
  proof (cases "x = a")
    case True
    with Cons.prems(1) have "f x \<notin> set (map f xs)" by simp
    from zero [OF this] True show ?thesis by simp
  next
    case False
    with Cons.prems have xin: "x \<in> set xs" and "f a \<notin> set (map f xs)" by simp_all
    then have "f a \<noteq> f x" by force
    moreover from Cons.IH Cons.prems(1) xin
    have "sum_list (map (\<lambda>y. if f y = f x then h y else (0::nat)) xs) = h x" by simp
    ultimately show ?thesis by simp
  qed
qed

lemma length_filter_disjoint:
  "(\<And>x. x \<in> set xs \<Longrightarrow> \<not> (A x \<and> B x)) \<Longrightarrow>
   length (filter (\<lambda>x. A x \<or> B x) xs) = length (filter A xs) + length (filter B xs)"
  by (induction xs) auto

lemma length_concat_if:
  "length (concat (map (\<lambda>x. if A x then [g x] else []) xs)) = length (filter A xs)"
  by (induction xs) simp_all

text \<open>The rows of one destination are as many as the bookings made for its packages.\<close>

lemma pair_count:
  "distinct (map pid ps) \<Longrightarrow>
   length (concat (map (\<lambda>p. if dest p = k
        then concat (map (\<lambda>b. if pkg b = pid p then [g p b] else []) bs) else []) ps)) =
   length (filter (\<lambda>b. list_ex (\<lambda>p. pid p = pkg b \<and> dest p = k) ps) bs)"
proof (induction ps)
  case Nil
  show ?case by simp
next
  case (Cons p ps)
  from Cons.prems have fresh: "pid p \<notin> set (map pid ps)" and dist: "distinct (map pid ps)"
    by simp_all
  let ?A = "\<lambda>b. pid p = pkg b \<and> dest p = k"
  let ?B = "\<lambda>b. list_ex (\<lambda>p. pid p = pkg b \<and> dest p = k) ps"
  have disj: "\<not> (?A b \<and> ?B b)" for b
  proof
    assume "?A b \<and> ?B b"
    then obtain q where q: "q \<in> set ps" and eq: "pid q = pid p"
      by (auto simp: list_ex_iff)
    from q have "pid q \<in> set (map pid ps)" by simp
    with fresh eq show False by simp
  qed
  have "length (filter (\<lambda>b. ?A b \<or> ?B b) bs) = length (filter ?A bs) + length (filter ?B bs)"
    by (rule length_filter_disjoint) (rule disj)
  moreover have "length (filter ?A bs) =
      length (if dest p = k then concat (map (\<lambda>b. if pkg b = pid p then [g p b] else []) bs) else [])"
    by (auto simp: length_concat_if intro!: arg_cong [where f = length] filter_cong)
  ultimately show ?case using Cons.IH [OF dist] by simp
qed

lemma first_of_sorted:
  assumes "gs \<noteq> []"
  shows "\<exists>g. first (order_by_count_desc gs) = Some g \<and> g \<in> set gs \<and>
             (\<forall>g' \<in> set gs. snd g' \<le> snd g)"
proof -
  let ?f = "\<lambda>g :: string \<times> nat. - int (snd g)"
  let ?ys = "sort_key ?f gs"
  have st: "set ?ys = set gs" by simp
  with assms have "?ys \<noteq> []" by (metis set_empty)
  then obtain y ys where ys: "?ys = y # ys" by (cases ?ys) auto
  have "sorted (map ?f ?ys)" by (rule sorted_sort_key)
  with ys have le: "\<forall>z \<in> set ys. ?f y \<le> ?f z" by simp
  have "y \<in> set gs" using st ys by (metis list.set_intros(1))
  moreover have "\<forall>g' \<in> set gs. snd g' \<le> snd y"
  proof
    fix g' assume "g' \<in> set gs"
    with st ys have "g' = y \<or> g' \<in> set ys" by (metis set_ConsD)
    with le show "snd g' \<le> snd y" by auto
  qed
  moreover have "first (order_by_count_desc gs) = Some y"
    by (simp add: first_def order_by_count_desc_def ys)
  ultimately show ?thesis by blast
qed

lemma filter_key_other:
  "k \<noteq> k' \<Longrightarrow> filter (\<lambda>x. f x = k') (filter (\<lambda>x. f x \<noteq> k) xs) = filter (\<lambda>x. f x = k') xs"
  by (induction xs) auto

lemma group_by_id_sound:
  "g \<in> set (group_by_id rs) \<Longrightarrow>
   \<exists>r \<in> set rs. g = (d_name (fst r), length (filter (\<lambda>x. d_id (fst x) = d_id (fst r)) rs))"
proof (induction rs arbitrary: g rule: group_by_id.induct)
  case 1
  then show ?case by simp
next
  case (2 r rs)
  let ?k = "d_id (fst r)"
  let ?rest = "filter (\<lambda>x. d_id (fst x) \<noteq> ?k) rs"
  from "2.prems" have "g = (d_name (fst r), Suc (length (filter (\<lambda>x. d_id (fst x) = ?k) rs))) \<or>
      g \<in> set (group_by_id ?rest)" by simp
  then show ?case
  proof
    assume "g = (d_name (fst r), Suc (length (filter (\<lambda>x. d_id (fst x) = ?k) rs)))"
    then have "g = (d_name (fst r), length (filter (\<lambda>x. d_id (fst x) = ?k) (r # rs)))" by simp
    then show ?thesis by (intro bexI [of _ r]) simp_all
  next
    assume "g \<in> set (group_by_id ?rest)"
    from "2.IH" [OF this] obtain r' where r': "r' \<in> set ?rest"
      and g: "g = (d_name (fst r'), length (filter (\<lambda>x. d_id (fst x) = d_id (fst r')) ?rest))"
      by blast
    from r' have ne: "?k \<noteq> d_id (fst r')" and mem: "r' \<in> set rs" by auto
    from filter_key_other [OF ne, of "\<lambda>x. d_id (fst x)" rs] g ne
    have "g = (d_name (fst r'), length (filter (\<lambda>x. d_id (fst x) = d_id (fst r')) (r # rs)))"
      by simp
    with mem show ?thesis by (intro bexI [of _ r']) simp_all
  qed
qed

lemma group_by_id_complete:
  "r \<in> set rs \<Longrightarrow>
   \<exists>g \<in> set (group_by_id rs). snd g = length (filter (\<lambda>x. d_id (fst x) = d_id (fst r)) rs)"
proof (induction rs arbitrary: r rule: group_by_id.induct)
  case 1
  then show ?case by simp
next
  case (2 a rs)
  let ?k = "d_id (fst a)"
  let ?rest = "filter (\<lambda>x. d_id (fst x) \<noteq> ?k) rs"
  show ?case
  proof (cases "d_id (fst r) = ?k")
    case True
    then have "length (filter (\<lambda>x. d_id (fst x) = d_id (fst r)) (a # rs)) =
        Suc (length (filter (\<lambda>x. d_id (fst x) = ?k) rs))" by simp
    then show ?thesis by simp
  next
    case False
    with "2.prems" have "r \<in> set ?rest" by auto
    from "2.IH" [OF this] obtain g where gin: "g \<in> set (group_by_id ?rest)"
      and g: "snd g = length (filter (\<lambda>x. d_id (fst x) = d_id (fst r)) ?rest)" by blast
    from False have ne: "?k \<noteq> d_id (fst r)" by simp
    from filter_key_other [OF ne, of "\<lambda>x. d_id (fst x)" rs] g ne
    have "snd g = length (filter (\<lambda>x. d_id (fst x) = d_id (fst r)) (a # rs))" by simp
    with gin show ?thesis by (intro bexI [of _ g]) simp_all
  qed
qed

lemma group_by_id_Nil: "group_by_id rs = [] \<longleftrightarrow> rs = []"
  by (cases rs) simp_all

lemma rows_key:
  "filter (\<lambda>x. f (fst x) = k)
     (concat (map (\<lambda>p. if A p then concat (map (\<lambda>b. if B p b then [(d, p, b)] else []) bs) else []) ps)) =
   (if f d = k
    then concat (map (\<lambda>p. if A p then concat (map (\<lambda>b. if B p b then [(d, p, b)] else []) bs) else []) ps)
    else [])"
proof -
  have inner: "filter (\<lambda>x. f (fst x) = k) (concat (map (\<lambda>b. if B p b then [(d, p, b)] else []) bs)) =
      (if f d = k then concat (map (\<lambda>b. if B p b then [(d, p, b)] else []) bs) else [])" for p
    by (induction bs) auto
  show ?thesis by (induction ps) (auto simp: inner)
qed

lemma joined_count:
  assumes "distinct (map d_id (destinations s))" and "distinct (map p_id (packages s))"
    and "d \<in> set (destinations s)"
  shows "length (filter (\<lambda>x. d_id (fst x) = d_id d) (joined s)) = booking_count s d"
proof -
  let ?R = "\<lambda>d. concat (map (\<lambda>p. if p_dest_id p = d_id d
      then concat (map (\<lambda>b. if b_package_id b = p_id p then [(d, p, b)] else []) (bookings s))
      else []) (packages s))"
  have j: "joined s = concat (map ?R (destinations s))"
    by (simp add: joined_def)
  have "length (filter (\<lambda>x. d_id (fst x) = d_id d) (joined s)) =
      sum_list (map (\<lambda>d'. length (filter (\<lambda>x. d_id (fst x) = d_id d) (?R d'))) (destinations s))"
    unfolding j by (rule length_filter_concat)
  also have "\<dots> = sum_list (map (\<lambda>d'. if d_id d' = d_id d then length (?R d') else 0) (destinations s))"
    by (intro arg_cong [where f = sum_list] map_cong refl)
       (simp only: rows_key [where f = d_id] if_distrib [where f = length] list.size)
  also have "\<dots> = length (?R d)"
    by (rule sum_list_unique_key [OF assms(1) assms(3)])
  also have "\<dots> = booking_count s d"
    unfolding booking_count_def booked_at_def
    by (rule pair_count [OF assms(2)])
  finally show ?thesis .
qed

lemma joined_fst:
  "r \<in> set (joined s) \<Longrightarrow> fst r \<in> set (destinations s)"
  by (auto simp: joined_def split: if_splits)

lemma joined_Nil: "bookings s = [] \<Longrightarrow> joined s = []"
  by (auto simp: joined_def)

lemma booked_somewhere:
  assumes "foreign_keys s" and "b \<in> set (bookings s)"
  shows "\<exists>d \<in> set (destinations s). booked_at s d b"
proof -
  from assms have "b_package_id b \<in> set (map p_id (packages s))"
    by (simp add: foreign_keys_def list_all_iff)
  then obtain p where p: "p \<in> set (packages s)" and pb: "p_id p = b_package_id b" by auto
  with assms(1) have "p_dest_id p \<in> set (map d_id (destinations s))"
    by (simp add: foreign_keys_def list_all_iff)
  then obtain d where d: "d \<in> set (destinations s)" and dp: "d_id d = p_dest_id p" by auto
  from p pb dp have "booked_at s d b"
    unfolding booked_at_def list_ex_iff by (intro bexI [of _ p]) simp_all
  with d show ?thesis ..
qed

lemma joined_empty_iff:
  assumes "primary_keys s"
  shows "joined s = [] \<longleftrightarrow> nothing_booked s"
proof -
  from assms have dd: "distinct (map d_id (destinations s))"
    and dp: "distinct (map p_id (packages s))"
    by (simp_all add: primary_keys_def)
  note count = joined_count [OF dd dp]
  show ?thesis
  proof
    assume "joined s = []"
    then have "booking_count s d = 0" if "d \<in> set (destinations s)" for d
      using count [OF that] by simp
    then show "nothing_booked s" by (simp add: nothing_booked_def list_all_iff)
  next
    assume nb: "nothing_booked s"
    show "joined s = []"
    proof (cases "joined s")
      case Nil
      then show ?thesis .
    next
      case (Cons r rs)
      then have r: "r \<in> set (joined s)" by simp
      then have d: "fst r \<in> set (destinations s)" by (rule joined_fst)
      from r have "filter (\<lambda>x. d_id (fst x) = d_id (fst r)) (joined s) \<noteq> []"
        by (simp add: filter_empty_conv) blast
      then have "length (filter (\<lambda>x. d_id (fst x) = d_id (fst r)) (joined s)) \<noteq> 0"
        by simp
      with count [OF d] have "booking_count s (fst r) \<noteq> 0" by simp
      with nb d show ?thesis by (simp add: nothing_booked_def list_all_iff)
    qed
  qed
qed

text \<open>
  C5. The claim: for every database state, the sentinel when zero bookings exist and
  otherwise the name of a most booked destination. Where foreign keys are not enforced,
  as the file leaves SQLite, \<^verbatim>\<open>add_package\<close> stores a package for the destination id 99
  that no destination has, and after a booking of it the bookings are not zero and the
  dashboard still shows \<^verbatim>\<open>No Bookings\<close>, which is the name of no destination.
\<close>

theorem popular_dest_sentinel_with_booking:
  "add_package sqlite_env (Some admin)
       (post [(''name'', ''Ghost tour''), (''price'', ''10''), (''capacity'', ''2''), (''dest_id'', ''99'')])
       (agency\<lparr>bookings := []\<rparr>) =
     Inr \<lparr>response = Redirect ''admin_dashboard'', flashed = [], logged_in = Some admin,
          store = haunted\<lparr>bookings := []\<rparr>\<rparr> \<and>
   book_package sqlite_env (Some alice) 3 (post [(''travelers'', ''2'')]) (haunted\<lparr>bookings := []\<rparr>) =
     Inr \<lparr>response = Redirect ''my_bookings'',
          flashed = [(''Booking request submitted!'', ''success'')],
          logged_in = Some alice, store = haunted\<rparr> \<and>
   primary_keys haunted \<and> bookings haunted \<noteq> [] \<and>
   popular_dest haunted = ''No Bookings'' \<and>
   ''No Bookings'' \<notin> set (map d_name (destinations haunted))"
  by (simp add: example_defs parse_defs add_package_def book_package_def login_required_def
      reply_def fresh_id_def image_filename_def primary_keys_def popular_dest_def popular_def
      joined_def order_by_count_desc_def first_def)

text \<open>
  C5, as the code has it. On a database with unique primary keys, the popular
  destination of the dashboard is \<^verbatim>\<open>No Bookings\<close> when no destination has a booking (a
  booking made for one of its packages), as it is when there is no booking at all, and
  otherwise the name of a destination whose number of bookings is the greatest among the
  destinations. Where the foreign keys hold, some destination has a booking as soon as
  there is a booking.
\<close>

theorem popular_dest_most_booked:
  assumes "primary_keys s"
  shows "(bookings s = [] \<longrightarrow> popular_dest s = ''No Bookings'') \<and>
         (nothing_booked s \<longrightarrow> popular_dest s = ''No Bookings'') \<and>
         (\<not> nothing_booked s \<longrightarrow>
            (\<exists>d \<in> set (destinations s). popular_dest s = d_name d \<and>
               (\<forall>d' \<in> set (destinations s). booking_count s d' \<le> booking_count s d))) \<and>
         (foreign_keys s \<and> bookings s \<noteq> [] \<longrightarrow> \<not> nothing_booked s)"
proof (intro conjI impI)
  assume "bookings s = []"
  then show "popular_dest s = ''No Bookings''"
    by (simp add: popular_dest_def popular_def joined_Nil order_by_count_desc_def first_def)
next
  assume "nothing_booked s"
  with joined_empty_iff [OF assms] have "joined s = []" by simp
  then show "popular_dest s = ''No Bookings''"
    by (simp add: popular_dest_def popular_def order_by_count_desc_def first_def)
next
  assume fk: "foreign_keys s \<and> bookings s \<noteq> []"
  then obtain b where b: "b \<in> set (bookings s)" by (cases "bookings s") auto
  from fk have "foreign_keys s" by simp
  from booked_somewhere [OF this b] obtain d0 where d0: "d0 \<in> set (destinations s)"
    and "booked_at s d0 b" by blast
  with b have "0 < booking_count s d0"
    by (auto simp: booking_count_def filter_empty_conv)
  with d0 show "\<not> nothing_booked s" by (auto simp: nothing_booked_def list_all_iff)
next
  assume some: "\<not> nothing_booked s"
  from assms have dd: "distinct (map d_id (destinations s))"
    and dp: "distinct (map p_id (packages s))"
    by (simp_all add: primary_keys_def)
  note count = joined_count [OF dd dp]
  let ?J = "joined s"
  let ?gs = "group_by_id ?J"
  from some joined_empty_iff [OF assms] have "?J \<noteq> []" by simp
  then have "?gs \<noteq> []" by (simp add: group_by_id_Nil)
  from first_of_sorted [OF this] obtain g where top: "first (order_by_count_desc ?gs) = Some g"
    and gin: "g \<in> set ?gs" and gmax: "\<forall>g' \<in> set ?gs. snd g' \<le> snd g" by blast
  from group_by_id_sound [OF gin] obtain r where r: "r \<in> set ?J"
    and g: "g = (d_name (fst r), length (filter (\<lambda>x. d_id (fst x) = d_id (fst r)) ?J))"
    by blast
  let ?d = "fst r"
  from r have d: "?d \<in> set (destinations s)" by (rule joined_fst)
  from g count [OF d] have name: "fst g = d_name ?d" and cnt: "snd g = booking_count s ?d"
    by simp_all
  have "popular_dest s = d_name ?d"
    using top name by (simp add: popular_dest_def popular_def)
  moreover have "\<forall>d' \<in> set (destinations s). booking_count s d' \<le> booking_count s ?d"
  proof
    fix d' assume d': "d' \<in> set (destinations s)"
    show "booking_count s d' \<le> booking_count s ?d"
    proof (cases "booking_count s d' = 0")
      case True
      then show ?thesis by simp
    next
      case False
      with count [OF d'] have "filter (\<lambda>x. d_id (fst x) = d_id d') ?J \<noteq> []" by auto
      then obtain r' where r': "r' \<in> set ?J" and k: "d_id (fst r') = d_id d'"
        by (auto simp: filter_empty_conv)
      from group_by_id_complete [OF r'] obtain g' where "g' \<in> set ?gs"
        and "snd g' = length (filter (\<lambda>x. d_id (fst x) = d_id (fst r')) ?J)" by blast
      with gmax k count [OF d'] cnt show ?thesis by auto
    qed
  qed
  ultimately show "\<exists>d \<in> set (destinations s). popular_dest s = d_name d \<and>
      (\<forall>d' \<in> set (destinations s). booking_count s d' \<le> booking_count s d)"
    using d by blast
qed

theorem popular_dest_most_booked_witness:
  "primary_keys agency \<and> foreign_keys agency \<and> bookings agency \<noteq> [] \<and>
   \<not> nothing_booked agency \<and>
   popular_dest agency = ''Goa'' \<and> d_name goa = ''Goa'' \<and>
   booking_count agency goa = 2 \<and> booking_count agency manali = 1 \<and>
   primary_keys (agency\<lparr>bookings := []\<rparr>) \<and>
   popular_dest (agency\<lparr>bookings := []\<rparr>) = ''No Bookings'' \<and>
   primary_keys haunted \<and> nothing_booked haunted \<and> popular_dest haunted = ''No Bookings''"
proof -
  have keys: "primary_keys agency" "primary_keys (agency\<lparr>bookings := []\<rparr>)" "primary_keys haunted"
    and fk: "foreign_keys agency"
    by (simp_all add: example_defs primary_keys_def foreign_keys_def)
  have counts: "booking_count agency goa = 2" "booking_count agency manali = 1"
    by (simp_all add: example_defs booking_count_def booked_at_def)
  have names: "d_name goa = ''Goa''" "d_name manali = ''Manali''"
    "destinations agency = [goa, manali]" "bookings agency \<noteq> []"
    by (simp_all add: example_defs)
  have none: "nothing_booked haunted"
    by (simp add: example_defs nothing_booked_def booking_count_def booked_at_def)
  from counts names have some: "\<not> nothing_booked agency"
    by (simp add: nothing_booked_def)
  from popular_dest_most_booked [OF keys(1)] some names counts
  have "popular_dest agency = ''Goa''" by auto
  moreover from popular_dest_most_booked [OF keys(2)]
  have "popular_dest (agency\<lparr>bookings := []\<rparr>) = ''No Bookings''" by simp
  moreover from popular_dest_most_booked [OF keys(3)] none
  have "popular_dest haunted = ''No Bookings''" by simp
  ultimately show ?thesis using keys fk counts names none some by simp
qed

end
